theory Spec2Isabelle
  imports Complex_Main "HOL-Library.AList"
begin

section \<open>The sqlmap-api task client (sqlmaptask.py)\<close>

text \<open>
  A shallow embedding of class \<open>SqlmapTask\<close>: the response decoder \<open>_request\<close>, the
  process-wide registry \<open>__TASKS\<close>, the constructor, the admin operations \<open>task_list\<close>
  and \<open>task_flush\<close>, \<open>task_new\<close> and \<open>task_delete\<close>.

  Python names that start with an underscore are not Isabelle identifiers:
  \<open>_request\<close> is \<open>static_request\<close>, \<open>__request\<close> is \<open>private_request\<close>,
  \<open>__task_request\<close> is \<open>private_task_request\<close>, \<open>__init__\<close> is \<open>SqlmapTask_init\<close>
  and the attributes \<open>self.id\<close>, \<open>self.api_url\<close>, \<open>self.target_url\<close> are the fields
  \<open>self_id\<close>, \<open>self_api_url\<close>, \<open>self_target_url\<close>.
\<close>

subsection \<open>Decoded JSON values\<close>

text \<open>
  What \<open>JsonSerializer.load_json\<close> hands back: Python's \<open>None\<close>, \<open>bool\<close>, \<open>int\<close>,
  \<open>float\<close>, \<open>str\<close>, \<open>list\<close> and \<open>dict\<close>. A \<open>dict\<close> is a list of key/value pairs in
  insertion order. \<open>JNull\<close> is Python's \<open>None\<close>.
\<close>

datatype json =
    JNull
  | JBool bool
  | JInt int
  | JFloat real
  | JStr string
  | JList "json list"
  | JDict "(string \<times> json) list"

text \<open>Python's truth value of a decoded value, what \<open>not success\<close> tests.\<close>

fun truthy :: "json \<Rightarrow> bool" where
  "truthy JNull = False"
| "truthy (JBool b) = b"
| "truthy (JInt i) = (i \<noteq> 0)"
| "truthy (JFloat r) = (r \<noteq> 0)"
| "truthy (JStr s) = (s \<noteq> [])"
| "truthy (JList xs) = (xs \<noteq> [])"
| "truthy (JDict kvs) = (kvs \<noteq> [])"

subsection \<open>Errors\<close>

text \<open>
  Every exception that leaves a modelled function is a value. \<open>RequestException\<close> carries
  the message of \<open>requests.RequestException\<close>, \<open>KeyError\<close> the key that was looked up.
  \<open>TransportError\<close> and \<open>DecodeError\<close> stand for whatever the two external collaborators
  raise. \<open>TypeError\<close> is what Python raises when a list or a mapping is used as
  a dictionary key, and when a value that is not a \<open>str\<close> is concatenated to one.
\<close>

datatype error =
    TransportError
  | DecodeError
  | AttributeError
  | TypeError
  | KeyError json
  | RequestException string

subsection \<open>Python dictionaries\<close>

text \<open>
  A \<open>dict\<close> keeps insertion order: storing at an existing key replaces the value in
  place, storing at a new key appends. The dictionaries of this type have \<open>str\<close>
  keys: a decoded JSON object, and the top level of \<open>__TASKS\<close>, whose keys are the
  \<open>api_url\<close> arguments. \<open>d.get(k)\<close> is \<open>dict_get\<close>, \<open>d[k]\<close> is
  \<open>dict_getitem\<close>, \<open>d[k] = v\<close> is \<open>dict_setitem\<close>, \<open>d.pop(k)\<close> (no default) is
  \<open>dict_pop\<close>.
\<close>

type_synonym 'v dict = "(string \<times> 'v) list"

definition dict_get :: "'v dict \<Rightarrow> string \<Rightarrow> 'v option" where
  "dict_get d k = map_of d k"

definition dict_getitem :: "'v dict \<Rightarrow> string \<Rightarrow> error + 'v" where
  "dict_getitem d k =
     (case map_of d k of None \<Rightarrow> Inl (KeyError (JStr k)) | Some v \<Rightarrow> Inr v)"

definition dict_setitem :: "'v dict \<Rightarrow> string \<Rightarrow> 'v \<Rightarrow> 'v dict" where
  "dict_setitem d k v = AList.update k v d"

definition dict_pop :: "'v dict \<Rightarrow> string \<Rightarrow> error + ('v \<times> 'v dict)" where
  "dict_pop d k =
     (case map_of d k of
        None \<Rightarrow> Inl (KeyError (JStr k))
      | Some v \<Rightarrow> Inr (v, AList.delete k d))"

text \<open>\<open>v.keys()\<close> on a decoded value: only a \<open>dict\<close> has the method.\<close>

definition keys :: "json \<Rightarrow> error + string list" where
  "keys v = (case v of JDict kvs \<Rightarrow> Inr (map fst kvs) | _ \<Rightarrow> Inl AttributeError)"

subsection \<open>Decoded values as dictionary keys\<close>

text \<open>
  An inner dictionary of \<open>__TASKS\<close> is keyed by task ids, and a task id is whatever
  \<open>r_data['taskid']\<close> was. A list or a mapping is not hashable: storing at such a key
  raises \<open>TypeError\<close>. The other values are compared with \<open>==\<close>, under which a
  \<open>bool\<close>, an \<open>int\<close> and a \<open>float\<close> of the same numeric value are one key
  (\<open>True == 1 == 1.0\<close>), and a string or \<open>None\<close> equals only itself.
\<close>

fun hashable :: "json \<Rightarrow> bool" where
  "hashable (JList xs) = False"
| "hashable (JDict kvs) = False"
| "hashable v = True"

fun num_of :: "json \<Rightarrow> real option" where
  "num_of (JBool b) = Some (if b then 1 else 0)"
| "num_of (JInt i) = Some (of_int i)"
| "num_of (JFloat r) = Some r"
| "num_of v = None"

definition key_eq :: "json \<Rightarrow> json \<Rightarrow> bool" where
  "key_eq a b =
     (case num_of a of
        Some x \<Rightarrow> (case num_of b of Some y \<Rightarrow> x = y | None \<Rightarrow> False)
      | None \<Rightarrow> (case num_of b of Some y \<Rightarrow> False | None \<Rightarrow> a = b))"

text \<open>
  \<open>d.get(k)\<close> and \<open>d[k] = v\<close> for a dictionary with such keys. Storing at a key equal
  to a stored one keeps the stored key and its place, and replaces the value.
\<close>

fun key_get :: "(json \<times> 'v) list \<Rightarrow> json \<Rightarrow> 'v option" where
  "key_get [] k = None"
| "key_get ((k', v') # d) k = (if key_eq k' k then Some v' else key_get d k)"

fun key_setitem :: "(json \<times> 'v) list \<Rightarrow> json \<Rightarrow> 'v \<Rightarrow> (json \<times> 'v) list" where
  "key_setitem [] k v = [(k, v)]"
| "key_setitem ((k', v') # d) k v =
     (if key_eq k' k then (k', v) # d else (k', v') # key_setitem d k v)"

text \<open>
  A task id looked up among \<open>str\<close> keys: \<open>k in keys\<close> for the key view of a decoded
  object, and \<open>d.pop(k)\<close> on the top level of \<open>__TASKS\<close>. Only a string equals
  a string key, so any other task id is not among them. (A list or a mapping is never
  a key of a dictionary, so the ids that are looked up are hashable.)
\<close>

definition key_in :: "json \<Rightarrow> string list \<Rightarrow> bool" where
  "key_in k ks = (case k of JStr s \<Rightarrow> s \<in> set ks | _ \<Rightarrow> False)"

definition dict_pop_key :: "'v dict \<Rightarrow> json \<Rightarrow> error + ('v \<times> 'v dict)" where
  "dict_pop_key d k = (case k of JStr s \<Rightarrow> dict_pop d s | _ \<Rightarrow> Inl (KeyError k))"

subsection \<open>Task handles, the registry and the observable state\<close>

text \<open>
  The constructor declares \<open>task_id: str\<close>, and Python does not check it:
  \<open>self.id\<close> holds the value it was given.
\<close>

record SqlmapTask =
  self_id :: json
  self_api_url :: string
  self_target_url :: string

text \<open>\<open>__TASKS\<close>: server endpoint to (task id to handle).\<close>

type_synonym registry = "(json \<times> SqlmapTask) list dict"

text \<open>
  \<open>HttpRequest.Type\<close> is not among the sources; its members are the ones the docstring
  of \<open>_request\<close> lists.
\<close>

datatype request_type = GET | POST | PUT | PATCH | DELETE

record request =
  req_url :: string
  req_type :: request_type
  req_json :: "json option"

text \<open>
  A record of \<open>Log.info\<close> and \<open>Log.error\<close> calls. \<open>LogInfo p v\<close> is the message
  \<open>p + str(v)\<close>.
\<close>

datatype log_entry = LogInfo string json | LogError string

text \<open>
  The state the class works on: the class attribute \<open>__TASKS\<close>, the requests handed to
  \<open>HttpRequest.request\<close> so far, and the log.
\<close>

record world =
  TASKS :: registry
  sent :: "request list"
  logged :: "log_entry list"

text \<open>
  The two collaborators that are not among the sources are parameters:
  \<open>HttpRequest.request(url, request_type, json=json).text\<close> and
  \<open>JsonSerializer.load_json\<close>. Either may raise.
\<close>

type_synonym transport = "string \<Rightarrow> request_type \<Rightarrow> json option \<Rightarrow> error + string"
type_synonym decoder = "string \<Rightarrow> error + json"

subsection \<open>\<open>_request\<close>\<close>

text \<open>
  \<open>r_data.get('success')\<close> needs \<open>r_data\<close> to be a \<open>dict\<close>; any other decoded value has
  no \<open>get\<close> and raises \<open>AttributeError\<close>, after the \<open>Log.info\<close> line. \<open>get\<close> gives
  \<open>None\<close> for an absent key, so \<open>success is None\<close> holds for an absent key and for
  a \<open>null\<close> value alike.
\<close>

definition static_request ::
  "transport \<Rightarrow> decoder \<Rightarrow> string \<Rightarrow> request_type \<Rightarrow> json option \<Rightarrow> world
     \<Rightarrow> (error + json dict) \<times> world" where
  "static_request http load_json url rtype js s =
     (let s1 = s\<lparr>sent := sent s @ [\<lparr>req_url = url, req_type = rtype, req_json = js\<rparr>]\<rparr> in
      case http url rtype js of
        Inl e \<Rightarrow> (Inl e, s1)
      | Inr text \<Rightarrow>
          (case load_json text of
             Inl e \<Rightarrow> (Inl e, s1)
           | Inr r_data \<Rightarrow>
               (let s2 = s1\<lparr>logged := logged s1
                            @ [LogInfo (''Response data of '' @ url @ '': '') r_data]\<rparr> in
                case r_data of
                  JDict d \<Rightarrow>
                    (let success = (case dict_get d ''success'' of None \<Rightarrow> JNull | Some v \<Rightarrow> v) in
                     if success = JNull then (Inr d, s2)
                     else if \<not> truthy success then
                       (Inl (RequestException (''Request to '' @ url @ '' failed'')),
                        s2\<lparr>logged := logged s2
                            @ [LogError (''Response data of '' @ url @ '' has { success: False }'')]\<rparr>)
                     else (Inr d, s2))
                | _ \<Rightarrow> (Inl AttributeError, s2))))"

subsection \<open>The constructor\<close>

text \<open>
  \<open>__init__\<close> creates the server's inner dictionary when \<open>__TASKS.get(api_url)\<close> is
  \<open>None\<close>, then stores the new handle at \<open>__TASKS[api_url][task_id]\<close>. The store
  raises \<open>TypeError\<close> when \<open>task_id\<close> is not hashable; the inner dictionary has
  been created by then.
\<close>

definition SqlmapTask_init ::
  "json \<Rightarrow> string \<Rightarrow> string \<Rightarrow> registry \<Rightarrow> (error + SqlmapTask) \<times> registry" where
  "SqlmapTask_init task_id api_url target_url reg =
     (let self = \<lparr>self_id = task_id, self_api_url = api_url, self_target_url = target_url\<rparr>;
          reg1 = (case dict_get reg api_url of
                    None \<Rightarrow> dict_setitem reg api_url []
                  | Some _ \<Rightarrow> reg)
      in case dict_getitem reg1 api_url of
           Inl e \<Rightarrow> (Inl e, reg1)
         | Inr inner \<Rightarrow>
             if hashable task_id
             then (Inr self, dict_setitem reg1 api_url (key_setitem inner task_id self))
             else (Inl TypeError, reg1))"

subsection \<open>Admin operations\<close>

text \<open>
  The loop of \<open>task_list\<close>. It walks the items of the server's inner dictionary, which
  the loop never changes, and pops from the top-level \<open>__TASKS\<close> with the task id as
  key: \<open>SqlmapTask.__TASKS.pop(task_id)\<close>. A \<open>pop\<close> of a key that is not there raises
  \<open>KeyError\<close> and ends the loop with the registry as it is by then.
\<close>

fun task_list_loop ::
  "string list \<Rightarrow> (json \<times> SqlmapTask) list \<Rightarrow> registry \<Rightarrow> (error + unit) \<times> registry" where
  "task_list_loop active_task_keys [] reg = (Inr (), reg)"
| "task_list_loop active_task_keys ((task_id, task) # items) reg =
     (if \<not> key_in task_id active_task_keys then
        (case dict_pop_key reg task_id of
           Inl e \<Rightarrow> (Inl e, reg)
         | Inr (_, reg') \<Rightarrow> task_list_loop active_task_keys items reg')
      else task_list_loop active_task_keys items reg)"

text \<open>
  \<open>task_list\<close>: the request, then \<open>__TASKS.get(api_url)\<close>, then
  \<open>r_data['tasks'].keys()\<close>, and only then the test \<open>task_dict is None\<close>, which returns
  a fresh empty \<open>dict()\<close>. Otherwise the loop runs and \<open>__TASKS\<close> itself is returned.
\<close>

definition task_list ::
  "transport \<Rightarrow> decoder \<Rightarrow> string \<Rightarrow> world \<Rightarrow> (error + registry) \<times> world" where
  "task_list http load_json api_url s =
     (case static_request http load_json (api_url @ ''/admin/list'') GET None s of
        (Inl e, s1) \<Rightarrow> (Inl e, s1)
      | (Inr r_data, s1) \<Rightarrow>
          (let task_dict = dict_get (TASKS s1) api_url in
           case dict_getitem r_data ''tasks'' of
             Inl e \<Rightarrow> (Inl e, s1)
           | Inr tasks \<Rightarrow>
               (case keys tasks of
                  Inl e \<Rightarrow> (Inl e, s1)
                | Inr active_task_keys \<Rightarrow>
                    (case task_dict of
                       None \<Rightarrow> (Inr [], s1)
                     | Some items \<Rightarrow>
                         (case task_list_loop active_task_keys items (TASKS s1) of
                            (Inl e, reg) \<Rightarrow> (Inl e, s1\<lparr>TASKS := reg\<rparr>)
                          | (Inr _, reg) \<Rightarrow> (Inr reg, s1\<lparr>TASKS := reg\<rparr>))))))"

text \<open>
  \<open>task_flush\<close> calls \<open>_request\<close> and has no \<open>return\<close> statement: when the request
  does not raise, the call yields \<open>None\<close>, which is \<open>JNull\<close>.
\<close>

definition task_flush ::
  "transport \<Rightarrow> decoder \<Rightarrow> string \<Rightarrow> world \<Rightarrow> (error + json) \<times> world" where
  "task_flush http load_json api_url s =
     (case static_request http load_json (api_url @ ''/admin/flush'') GET None s of
        (Inl e, s1) \<Rightarrow> (Inl e, s1)
      | (Inr _, s1) \<Rightarrow> (Inr JNull, s1))"

subsection \<open>Task management\<close>

text \<open>
  \<open>task_new\<close> passes \<open>r_data['taskid']\<close>, whatever it is, to the constructor.
\<close>

definition task_new ::
  "transport \<Rightarrow> decoder \<Rightarrow> string \<Rightarrow> string \<Rightarrow> world \<Rightarrow> (error + SqlmapTask) \<times> world" where
  "task_new http load_json api_url target_url s =
     (case static_request http load_json (api_url @ ''/task/new'') GET None s of
        (Inl e, s1) \<Rightarrow> (Inl e, s1)
      | (Inr r_data, s1) \<Rightarrow>
          (case dict_getitem r_data ''taskid'' of
             Inl e \<Rightarrow> (Inl e, s1)
           | Inr task_id \<Rightarrow>
               (case SqlmapTask_init task_id api_url target_url (TASKS s1) of
                  (r, reg) \<Rightarrow> (r, s1\<lparr>TASKS := reg\<rparr>))))"




subsection \<open>Reading the registry, and stand-ins for the collaborators\<close>

text \<open>
  \<open>registry_at reg api_url task_id\<close> is the handle stored in \<open>__TASKS\<close> at the pair
  (server endpoint, task id), if there is one.
\<close>

definition registry_at :: "registry \<Rightarrow> string \<Rightarrow> json \<Rightarrow> SqlmapTask option" where
  "registry_at reg api_url task_id =
     (case dict_get reg api_url of None \<Rightarrow> None | Some inner \<Rightarrow> key_get inner task_id)"

text \<open>
  A transport that answers every request with the same text, and a decoder that
  decodes every text to the same value: a mocked server, for concrete runs.
\<close>

definition mock_http :: "string \<Rightarrow> transport" where
  "mock_http text url rtype js = Inr text"

definition mock_load_json :: "json \<Rightarrow> decoder" where
  "mock_load_json v text = Inr v"

section \<open>Properties\<close>

subsection \<open>What \<open>_request\<close> leaves alone, and what it records\<close>

lemma static_request_TASKS:
  "TASKS (snd (static_request http load_json url rtype js s)) = TASKS s"
  by (simp add: static_request_def Let_def split: sum.splits json.splits option.splits)

lemma static_request_sent:
  "sent (snd (static_request http load_json url rtype js s)) =
     sent s @ [\<lparr>req_url = url, req_type = rtype, req_json = js\<rparr>]"
  by (simp add: static_request_def Let_def split: sum.splits json.splits option.splits)

text \<open>\<open>_request\<close> against the mocked server, in one equation.\<close>

lemma static_request_mock:
  "static_request (mock_http text) (mock_load_json (JDict d)) url rtype js s =
     (let s2 = s\<lparr>sent := sent s @ [\<lparr>req_url = url, req_type = rtype, req_json = js\<rparr>],
                 logged := logged s @ [LogInfo (''Response data of '' @ url @ '': '') (JDict d)]\<rparr>;
          success = (case map_of d ''success'' of None \<Rightarrow> JNull | Some v \<Rightarrow> v)
      in if success = JNull \<or> truthy success then (Inr d, s2)
         else (Inl (RequestException (''Request to '' @ url @ '' failed'')),
               s2\<lparr>logged := logged s2
                     @ [LogError (''Response data of '' @ url @ '' has { success: False }'')]\<rparr>))"
  by (simp add: static_request_def mock_http_def mock_load_json_def Let_def dict_get_def)

subsection \<open>The response decoder\<close>

text \<open>
  Claim C2. Whatever the URL, when the decoded body is a mapping whose \<open>success\<close> field
  is present and is \<open>false\<close>, \<open>_request\<close> raises the request failure, whose message
  carries the URL, and returns no value.
\<close>

theorem request_success_false_raises:
  assumes "http url rtype js = Inr raw"
    and "load_json raw = Inr (JDict body)"
    and "dict_get body ''success'' = Some (JBool False)"
  shows "fst (static_request http load_json url rtype js s) =
           Inl (RequestException (''Request to '' @ url @ '' failed''))
         \<and> (\<forall>r. fst (static_request http load_json url rtype js s) \<noteq> Inr r)"
  using assms by (simp add: static_request_def Let_def)

text \<open>The run of C2 at \<open>{"success": false}\<close>, answered to a request for \<open>/task/new\<close>.\<close>

theorem request_success_false_raises_witness:
  "mock_http ''body'' ''http://127.0.0.1:8775/task/new'' GET None = Inr ''body''
   \<and> mock_load_json (JDict [(''success'', JBool False)]) ''body''
       = Inr (JDict [(''success'', JBool False)])
   \<and> dict_get [(''success'', JBool False)] ''success'' = Some (JBool False)
   \<and> fst (static_request (mock_http ''body'') (mock_load_json (JDict [(''success'', JBool False)]))
            ''http://127.0.0.1:8775/task/new'' GET None \<lparr>TASKS = [], sent = [], logged = []\<rparr>)
       = Inl (RequestException ''Request to http://127.0.0.1:8775/task/new failed'')"
proof -
  have h1: "mock_http ''body'' ''http://127.0.0.1:8775/task/new'' GET None = Inr ''body''"
    by (simp add: mock_http_def)
  have h2: "mock_load_json (JDict [(''success'', JBool False)]) ''body''
              = Inr (JDict [(''success'', JBool False)])"
    by (simp add: mock_load_json_def)
  have h3: "dict_get [(''success'', JBool False)] ''success'' = Some (JBool False)"
    by (simp add: dict_get_def)
  show ?thesis
    using h1 h2 h3
      request_success_false_raises
        [where http = "mock_http ''body''" and url = "''http://127.0.0.1:8775/task/new''"
           and rtype = GET and js = None and raw = "''body''"
           and load_json = "mock_load_json (JDict [(''success'', JBool False)])"
           and body = "[(''success'', JBool False)]"
           and s = "\<lparr>TASKS = [], sent = [], logged = []\<rparr>"]
    by simp
qed

text \<open>
  Claim C3. When the decoded body is a mapping that has no \<open>success\<close> key, or whose
  \<open>success\<close> field is \<open>true\<close> or any other truthy value, \<open>_request\<close> returns the
  decoded body unchanged.
\<close>

theorem request_returns_body_unchanged:
  assumes "http url rtype js = Inr raw"
    and "load_json raw = Inr (JDict body)"
    and "dict_get body ''success'' = None
         \<or> (\<exists>v. dict_get body ''success'' = Some v \<and> truthy v)"
  shows "fst (static_request http load_json url rtype js s) = Inr body"
  using assms by (auto simp add: static_request_def Let_def)

text \<open>
  The run of C3 at \<open>{"taskid": "abc123"}\<close>, which has no \<open>success\<close> key, and at
  \<open>{"success": 1}\<close>, whose \<open>success\<close> is truthy without being \<open>true\<close>.
\<close>

theorem request_returns_body_unchanged_witness:
  "fst (static_request (mock_http ''body'') (mock_load_json (JDict [(''taskid'', JStr ''abc123'')]))
          ''http://127.0.0.1:8775/task/new'' GET None \<lparr>TASKS = [], sent = [], logged = []\<rparr>)
     = Inr [(''taskid'', JStr ''abc123'')]
   \<and> fst (static_request (mock_http ''body'') (mock_load_json (JDict [(''success'', JInt 1)]))
          ''http://127.0.0.1:8775/task/new'' GET None \<lparr>TASKS = [], sent = [], logged = []\<rparr>)
     = Inr [(''success'', JInt 1)]"
proof -
  have h1: "mock_http ''body'' ''http://127.0.0.1:8775/task/new'' GET None = Inr ''body''"
    by (simp add: mock_http_def)
  have a2: "mock_load_json (JDict [(''taskid'', JStr ''abc123'')]) ''body''
              = Inr (JDict [(''taskid'', JStr ''abc123'')])"
    by (simp add: mock_load_json_def)
  have a3: "dict_get [(''taskid'', JStr ''abc123'')] ''success'' = None
            \<or> (\<exists>v. dict_get [(''taskid'', JStr ''abc123'')] ''success'' = Some v \<and> truthy v)"
    by (simp add: dict_get_def)
  have b2: "mock_load_json (JDict [(''success'', JInt 1)]) ''body''
              = Inr (JDict [(''success'', JInt 1)])"
    by (simp add: mock_load_json_def)
  have b3: "dict_get [(''success'', JInt 1)] ''success'' = None
            \<or> (\<exists>v. dict_get [(''success'', JInt 1)] ''success'' = Some v \<and> truthy v)"
    by (simp add: dict_get_def)
  show ?thesis
    using h1 a2 a3 b2 b3
      request_returns_body_unchanged
        [where http = "mock_http ''body''" and url = "''http://127.0.0.1:8775/task/new''"
           and rtype = GET and js = None and raw = "''body''"
           and load_json = "mock_load_json (JDict [(''taskid'', JStr ''abc123'')])"
           and body = "[(''taskid'', JStr ''abc123'')]"
           and s = "\<lparr>TASKS = [], sent = [], logged = []\<rparr>"]
      request_returns_body_unchanged
        [where http = "mock_http ''body''" and url = "''http://127.0.0.1:8775/task/new''"
           and rtype = GET and js = None and raw = "''body''"
           and load_json = "mock_load_json (JDict [(''success'', JInt 1)])"
           and body = "[(''success'', JInt 1)]"
           and s = "\<lparr>TASKS = [], sent = [], logged = []\<rparr>"]
    by simp
qed

text \<open>
  Claim C9. When the decoded body is a mapping whose \<open>success\<close> field is present, is not
  \<open>None\<close>, and is falsy without being the boolean \<open>false\<close> (0, an empty string, an
  empty list, an empty mapping), \<open>_request\<close> raises the same request failure as it does
  for \<open>{"success": false}\<close>: the test is the truth value of the field.
\<close>

theorem request_falsy_success_raises:
  assumes "http url rtype js = Inr raw"
    and "load_json raw = Inr (JDict body)"
    and "dict_get body ''success'' = Some v"
    and "v \<noteq> JNull" and "v \<noteq> JBool False" and "\<not> truthy v"
  shows "fst (static_request http load_json url rtype js s) =
           Inl (RequestException (''Request to '' @ url @ '' failed''))
         \<and> fst (static_request http load_json url rtype js s) =
           fst (static_request http (mock_load_json (JDict [(''success'', JBool False)]))
                  url rtype js s)"
  using assms by (simp add: static_request_def mock_load_json_def dict_get_def Let_def)

text \<open>
  The runs of C9 with \<open>success\<close> being 0, the empty string, the empty list and the
  empty mapping.
\<close>

theorem request_falsy_success_raises_witness:
  "fst (static_request (mock_http ''body'') (mock_load_json (JDict [(''success'', JInt 0)]))
          ''http://127.0.0.1:8775/task/new'' GET None \<lparr>TASKS = [], sent = [], logged = []\<rparr>)
     = Inl (RequestException ''Request to http://127.0.0.1:8775/task/new failed'')
   \<and> fst (static_request (mock_http ''body'') (mock_load_json (JDict [(''success'', JStr [])]))
          ''http://127.0.0.1:8775/task/new'' GET None \<lparr>TASKS = [], sent = [], logged = []\<rparr>)
     = Inl (RequestException ''Request to http://127.0.0.1:8775/task/new failed'')
   \<and> fst (static_request (mock_http ''body'') (mock_load_json (JDict [(''success'', JList [])]))
          ''http://127.0.0.1:8775/task/new'' GET None \<lparr>TASKS = [], sent = [], logged = []\<rparr>)
     = Inl (RequestException ''Request to http://127.0.0.1:8775/task/new failed'')
   \<and> fst (static_request (mock_http ''body'') (mock_load_json (JDict [(''success'', JDict [])]))
          ''http://127.0.0.1:8775/task/new'' GET None \<lparr>TASKS = [], sent = [], logged = []\<rparr>)
     = Inl (RequestException ''Request to http://127.0.0.1:8775/task/new failed'')"
proof -
  have run: "fst (static_request (mock_http ''body'') (mock_load_json (JDict [(''success'', v)]))
               ''http://127.0.0.1:8775/task/new'' GET None \<lparr>TASKS = [], sent = [], logged = []\<rparr>)
          = Inl (RequestException ''Request to http://127.0.0.1:8775/task/new failed'')"
    if "v \<noteq> JNull" "v \<noteq> JBool False" "\<not> truthy v" for v
  proof -
    have h1: "mock_http ''body'' ''http://127.0.0.1:8775/task/new'' GET None = Inr ''body''"
      by (simp add: mock_http_def)
    have h2: "mock_load_json (JDict [(''success'', v)]) ''body'' = Inr (JDict [(''success'', v)])"
      by (simp add: mock_load_json_def)
    have h3: "dict_get [(''success'', v)] ''success'' = Some v"
      by (simp add: dict_get_def)
    show ?thesis
      using h1 h2 h3 that
        request_falsy_success_raises
        [where http = "mock_http ''body''" and url = "''http://127.0.0.1:8775/task/new''"
           and rtype = GET and js = None and raw = "''body''"
           and load_json = "mock_load_json (JDict [(''success'', v)])"
           and body = "[(''success'', v)]" and v = v
           and s = "\<lparr>TASKS = [], sent = [], logged = []\<rparr>"]
      by simp
  qed
  show ?thesis
    using run [of "JInt 0"] run [of "JStr []"] run [of "JList []"] run [of "JDict []"]
    by simp
qed

subsection \<open>The constructor and \<open>task_new\<close>\<close>

lemma key_eq_refl: "key_eq k k"
  by (simp add: key_eq_def split: option.splits)

lemma key_get_setitem: "key_get (key_setitem d k v) k = Some v"
  by (induction d) (auto simp add: key_eq_refl)

text \<open>
  With a hashable task id the constructor does not raise: after its first step the
  server's inner dictionary is there. It returns the handle built from its three
  arguments.
\<close>

lemma SqlmapTask_init_result:
  "hashable task_id \<Longrightarrow>
   SqlmapTask_init task_id api_url target_url reg =
     (Inr \<lparr>self_id = task_id, self_api_url = api_url, self_target_url = target_url\<rparr>,
      dict_setitem
        (case dict_get reg api_url of None \<Rightarrow> dict_setitem reg api_url [] | Some _ \<Rightarrow> reg)
        api_url
        (key_setitem (case dict_get reg api_url of None \<Rightarrow> [] | Some inner \<Rightarrow> inner) task_id
           \<lparr>self_id = task_id, self_api_url = api_url, self_target_url = target_url\<rparr>))"
  by (simp add: SqlmapTask_init_def dict_get_def dict_getitem_def dict_setitem_def Let_def
      update_conv' split: option.splits)

lemma SqlmapTask_init_registry_at:
  "hashable task_id \<Longrightarrow>
   registry_at (snd (SqlmapTask_init task_id api_url target_url reg)) api_url task_id =
     Some \<lparr>self_id = task_id, self_api_url = api_url, self_target_url = target_url\<rparr>"
  by (simp add: SqlmapTask_init_result registry_at_def dict_get_def dict_setitem_def update_conv'
      key_get_setitem)

text \<open>
  Claim C4, as the code has it. Whatever the server endpoint and the target URL, when
  the Envelope that \<open>_request\<close> returns for \<open>/task/new\<close> carries a \<open>taskid\<close> field whose
  value is hashable (a string, a number, a boolean or \<open>null\<close>; not a list, not
  a mapping), \<open>task_new\<close> returns a handle whose id is that value and whose endpoint is
  the one supplied, and afterwards the registry holds that handle at the pair
  (endpoint, taskid).
\<close>

theorem task_new_registers_handle:
  assumes "static_request http load_json (api_url @ ''/task/new'') GET None s = (Inr r_data, s1)"
    and "dict_get r_data ''taskid'' = Some task_id"
    and "hashable task_id"
  shows "fst (task_new http load_json api_url target_url s) =
           Inr \<lparr>self_id = task_id, self_api_url = api_url, self_target_url = target_url\<rparr>
         \<and> registry_at (TASKS (snd (task_new http load_json api_url target_url s))) api_url task_id =
           Some \<lparr>self_id = task_id, self_api_url = api_url, self_target_url = target_url\<rparr>"
  using assms SqlmapTask_init_registry_at [of task_id api_url target_url "TASKS s1"]
  by (simp add: task_new_def dict_getitem_def dict_get_def SqlmapTask_init_result)

text \<open>
  The runs of the amended C4 against a server that answers \<open>{"taskid": "abc123"}\<close> and
  against one that answers \<open>{"taskid": 5}\<close>, each from the empty registry.
\<close>

theorem task_new_registers_handle_witness:
  "fst (task_new (mock_http ''body'') (mock_load_json (JDict [(''taskid'', JStr ''abc123'')]))
          ''http://127.0.0.1:8775'' ''http://target/?id=1'' \<lparr>TASKS = [], sent = [], logged = []\<rparr>)
     = Inr \<lparr>self_id = JStr ''abc123'', self_api_url = ''http://127.0.0.1:8775'',
            self_target_url = ''http://target/?id=1''\<rparr>
   \<and> registry_at
        (TASKS (snd (task_new (mock_http ''body'')
                       (mock_load_json (JDict [(''taskid'', JStr ''abc123'')]))
                       ''http://127.0.0.1:8775'' ''http://target/?id=1''
                       \<lparr>TASKS = [], sent = [], logged = []\<rparr>)))
        ''http://127.0.0.1:8775'' (JStr ''abc123'')
     = Some \<lparr>self_id = JStr ''abc123'', self_api_url = ''http://127.0.0.1:8775'',
              self_target_url = ''http://target/?id=1''\<rparr>
   \<and> fst (task_new (mock_http ''body'') (mock_load_json (JDict [(''taskid'', JInt 5)]))
          ''http://127.0.0.1:8775'' ''http://target/?id=1'' \<lparr>TASKS = [], sent = [], logged = []\<rparr>)
     = Inr \<lparr>self_id = JInt 5, self_api_url = ''http://127.0.0.1:8775'',
            self_target_url = ''http://target/?id=1''\<rparr>
   \<and> registry_at
        (TASKS (snd (task_new (mock_http ''body'')
                       (mock_load_json (JDict [(''taskid'', JInt 5)]))
                       ''http://127.0.0.1:8775'' ''http://target/?id=1''
                       \<lparr>TASKS = [], sent = [], logged = []\<rparr>)))
        ''http://127.0.0.1:8775'' (JInt 5)
     = Some \<lparr>self_id = JInt 5, self_api_url = ''http://127.0.0.1:8775'',
              self_target_url = ''http://target/?id=1''\<rparr>"
proof -
  have run:
    "fst (task_new (mock_http ''body'') (mock_load_json (JDict [(''taskid'', v)]))
            ''http://127.0.0.1:8775'' ''http://target/?id=1''
            \<lparr>TASKS = [], sent = [], logged = []\<rparr>)
       = Inr \<lparr>self_id = v, self_api_url = ''http://127.0.0.1:8775'',
              self_target_url = ''http://target/?id=1''\<rparr>
     \<and> registry_at
          (TASKS (snd (task_new (mock_http ''body'') (mock_load_json (JDict [(''taskid'', v)]))
                         ''http://127.0.0.1:8775'' ''http://target/?id=1''
                         \<lparr>TASKS = [], sent = [], logged = []\<rparr>)))
          ''http://127.0.0.1:8775'' v
       = Some \<lparr>self_id = v, self_api_url = ''http://127.0.0.1:8775'',
                self_target_url = ''http://target/?id=1''\<rparr>"
    if h3: "hashable v" for v
  proof -
    have h1: "static_request (mock_http ''body'') (mock_load_json (JDict [(''taskid'', v)]))
                (''http://127.0.0.1:8775'' @ ''/task/new'') GET None
                \<lparr>TASKS = [], sent = [], logged = []\<rparr>
              = (Inr [(''taskid'', v)],
                 \<lparr>TASKS = [],
                  sent = [\<lparr>req_url = ''http://127.0.0.1:8775/task/new'', req_type = GET,
                           req_json = None\<rparr>],
                  logged = [LogInfo ''Response data of http://127.0.0.1:8775/task/new: ''
                              (JDict [(''taskid'', v)])]\<rparr>)"
      by (simp add: static_request_mock Let_def)
    have h2: "dict_get [(''taskid'', v)] ''taskid'' = Some v"
      by (simp add: dict_get_def)
    show ?thesis
      using task_new_registers_handle [OF h1 h2 h3, of "''http://target/?id=1''"] by simp
  qed
  show ?thesis
    using run [of "JStr ''abc123''"] run [of "JInt 5"] by simp
qed

text \<open>
  C4 as stated fails: against a server that answers \<open>{"taskid": []}\<close> the Envelope
  carries a \<open>taskid\<close> field, and \<open>task_new\<close> raises \<open>TypeError\<close> at the registry store;
  no handle is returned and none is registered.
\<close>

theorem task_new_unhashable_taskid_counterexample:
  "fst (static_request (mock_http ''body'') (mock_load_json (JDict [(''taskid'', JList [])]))
          (''http://127.0.0.1:8775'' @ ''/task/new'') GET None
          \<lparr>TASKS = [], sent = [], logged = []\<rparr>)
     = Inr [(''taskid'', JList [])]
   \<and> dict_get [(''taskid'', JList [])] ''taskid'' = Some (JList [])
   \<and> fst (task_new (mock_http ''body'') (mock_load_json (JDict [(''taskid'', JList [])]))
          ''http://127.0.0.1:8775'' ''http://target/?id=1'' \<lparr>TASKS = [], sent = [], logged = []\<rparr>)
     = Inl TypeError
   \<and> registry_at
        (TASKS (snd (task_new (mock_http ''body'') (mock_load_json (JDict [(''taskid'', JList [])]))
                       ''http://127.0.0.1:8775'' ''http://target/?id=1''
                       \<lparr>TASKS = [], sent = [], logged = []\<rparr>)))
        ''http://127.0.0.1:8775'' (JList [])
     = None"
  by (simp add: task_new_def static_request_mock Let_def dict_get_def dict_getitem_def
      dict_setitem_def SqlmapTask_init_def registry_at_def)

text \<open>
  Claim C6. Whatever the server endpoint, when the Envelope that \<open>_request\<close> returns for
  \<open>/task/new\<close> has no \<open>taskid\<close> field, \<open>task_new\<close> fails with the missing-key lookup
  error for \<open>taskid\<close> and returns no handle.
\<close>

theorem task_new_missing_taskid_raises:
  assumes "static_request http load_json (api_url @ ''/task/new'') GET None s = (Inr r_data, s1)"
    and "dict_get r_data ''taskid'' = None"
  shows "task_new http load_json api_url target_url s = (Inl (KeyError (JStr ''taskid'')), s1)"
  using assms by (simp add: task_new_def dict_getitem_def dict_get_def)

text \<open>The run of C6 against a server that answers \<open>{"success": true}\<close>.\<close>

theorem task_new_missing_taskid_raises_witness:
  "fst (task_new (mock_http ''body'') (mock_load_json (JDict [(''success'', JBool True)]))
          ''http://127.0.0.1:8775'' ''http://target/?id=1'' \<lparr>TASKS = [], sent = [], logged = []\<rparr>)
     = Inl (KeyError (JStr ''taskid''))
   \<and> TASKS (snd (task_new (mock_http ''body'')
                    (mock_load_json (JDict [(''success'', JBool True)]))
                    ''http://127.0.0.1:8775'' ''http://target/?id=1''
                    \<lparr>TASKS = [], sent = [], logged = []\<rparr>)) = []"
proof -
  have h1: "static_request (mock_http ''body'')
              (mock_load_json (JDict [(''success'', JBool True)]))
              (''http://127.0.0.1:8775'' @ ''/task/new'') GET None
              \<lparr>TASKS = [], sent = [], logged = []\<rparr>
            = (Inr [(''success'', JBool True)],
               \<lparr>TASKS = [],
                sent = [\<lparr>req_url = ''http://127.0.0.1:8775/task/new'', req_type = GET,
                         req_json = None\<rparr>],
                logged = [LogInfo ''Response data of http://127.0.0.1:8775/task/new: ''
                            (JDict [(''success'', JBool True)])]\<rparr>)"
    by (simp add: static_request_mock Let_def)
  have h2: "dict_get [(''success'', JBool True)] ''taskid'' = None"
    by (simp add: dict_get_def)
  show ?thesis
    using task_new_missing_taskid_raises [OF h1 h2, of "''http://target/?id=1''"] by simp
qed

subsection \<open>\<open>task_delete\<close>\<close>




subsection \<open>\<open>task_flush\<close>\<close>

text \<open>
  Claim C5, as the code has it. For every server endpoint, \<open>task_flush\<close> is one \<open>GET\<close>
  request, without a body, to \<open>/admin/flush\<close>; it leaves the registry as it was; when
  the request raises, so does \<open>task_flush\<close>, and when the request returns an Envelope,
  \<open>task_flush\<close> returns \<open>None\<close>, not the Envelope.
\<close>

theorem task_flush_request_frame_result:
  "sent (snd (task_flush http load_json api_url s)) =
     sent s @ [\<lparr>req_url = api_url @ ''/admin/flush'', req_type = GET, req_json = None\<rparr>]
   \<and> TASKS (snd (task_flush http load_json api_url s)) = TASKS s
   \<and> fst (task_flush http load_json api_url s) =
       (case fst (static_request http load_json (api_url @ ''/admin/flush'') GET None s) of
          Inl e \<Rightarrow> Inl e
        | Inr r_data \<Rightarrow> Inr JNull)"
proof -
  obtain r s1 where
    eq: "static_request http load_json (api_url @ ''/admin/flush'') GET None s = (r, s1)"
    by (cases "static_request http load_json (api_url @ ''/admin/flush'') GET None s")
  have "sent s1 =
          sent s @ [\<lparr>req_url = api_url @ ''/admin/flush'', req_type = GET, req_json = None\<rparr>]"
    using static_request_sent [of http load_json "api_url @ ''/admin/flush''" GET None s] eq
    by simp
  moreover have "TASKS s1 = TASKS s"
    using static_request_TASKS [of http load_json "api_url @ ''/admin/flush''" GET None s] eq
    by simp
  ultimately show ?thesis
    by (simp add: task_flush_def eq split: sum.splits)
qed

text \<open>
  C5 as stated fails: against a server that answers \<open>{"success": true}\<close> the request
  returns that Envelope, and \<open>task_flush\<close> returns \<open>None\<close>.
\<close>

theorem task_flush_returns_envelope_counterexample:
  "fst (static_request (mock_http ''body'') (mock_load_json (JDict [(''success'', JBool True)]))
          (''http://127.0.0.1:8775'' @ ''/admin/flush'') GET None
          \<lparr>TASKS = [], sent = [], logged = []\<rparr>)
     = Inr [(''success'', JBool True)]
   \<and> fst (task_flush (mock_http ''body'') (mock_load_json (JDict [(''success'', JBool True)]))
          ''http://127.0.0.1:8775'' \<lparr>TASKS = [], sent = [], logged = []\<rparr>)
     = Inr JNull
   \<and> fst (task_flush (mock_http ''body'') (mock_load_json (JDict [(''success'', JBool True)]))
          ''http://127.0.0.1:8775'' \<lparr>TASKS = [], sent = [], logged = []\<rparr>)
     \<noteq> Inr (JDict [(''success'', JBool True)])"
  by (simp add: task_flush_def static_request_mock Let_def)

subsection \<open>\<open>task_list\<close>\<close>

lemma task_list_sent:
  "sent (snd (task_list http load_json api_url s)) =
     sent s @ [\<lparr>req_url = api_url @ ''/admin/list'', req_type = GET, req_json = None\<rparr>]"
proof -
  obtain r s1 where
    eq: "static_request http load_json (api_url @ ''/admin/list'') GET None s = (r, s1)"
    by (cases "static_request http load_json (api_url @ ''/admin/list'') GET None s")
  have "sent s1 =
          sent s @ [\<lparr>req_url = api_url @ ''/admin/list'', req_type = GET, req_json = None\<rparr>]"
    using static_request_sent [of http load_json "api_url @ ''/admin/list''" GET None s] eq
    by simp
  then show ?thesis
    by (simp add: task_list_def eq Let_def split: sum.splits option.splits prod.splits)
qed

text \<open>
  Claim C1, at the input the specification gives: the server is
  \<open>http://127.0.0.1:8775\<close>, the registry is the one two constructor calls leave, with
  \<open>abc123\<close> and \<open>zzz999\<close> under that server, and \<open>/admin/list\<close> answers
  \<open>{"success": true, "tasks": {"abc123": "..."}}\<close>. The pass does not complete:
  \<open>__TASKS.pop("zzz999")\<close> looks the task id up among the server endpoints, raises
  \<open>KeyError\<close>, and \<open>zzz999\<close> is still registered under the server afterwards.
\<close>

theorem task_list_stale_task_raises_KeyError:
  "snd (SqlmapTask_init (JStr ''zzz999'') ''http://127.0.0.1:8775'' ''http://target/?id=1''
          (snd (SqlmapTask_init (JStr ''abc123'') ''http://127.0.0.1:8775'' ''http://target/?id=1'' [])))
     = [(''http://127.0.0.1:8775'',
         [(JStr ''abc123'', \<lparr>self_id = JStr ''abc123'', self_api_url = ''http://127.0.0.1:8775'',
                         self_target_url = ''http://target/?id=1''\<rparr>),
          (JStr ''zzz999'', \<lparr>self_id = JStr ''zzz999'', self_api_url = ''http://127.0.0.1:8775'',
                         self_target_url = ''http://target/?id=1''\<rparr>)])]
   \<and> fst (task_list (mock_http ''body'')
          (mock_load_json (JDict [(''success'', JBool True),
                                  (''tasks'', JDict [(''abc123'', JStr ''...'')])]))
          ''http://127.0.0.1:8775''
          \<lparr>TASKS = [(''http://127.0.0.1:8775'',
                      [(JStr ''abc123'', \<lparr>self_id = JStr ''abc123'', self_api_url = ''http://127.0.0.1:8775'',
                                      self_target_url = ''http://target/?id=1''\<rparr>),
                       (JStr ''zzz999'', \<lparr>self_id = JStr ''zzz999'', self_api_url = ''http://127.0.0.1:8775'',
                                      self_target_url = ''http://target/?id=1''\<rparr>)])],
           sent = [], logged = []\<rparr>)
     = Inl (KeyError (JStr ''zzz999''))
   \<and> registry_at
        (TASKS (snd (task_list (mock_http ''body'')
          (mock_load_json (JDict [(''success'', JBool True),
                                  (''tasks'', JDict [(''abc123'', JStr ''...'')])]))
          ''http://127.0.0.1:8775''
          \<lparr>TASKS = [(''http://127.0.0.1:8775'',
                      [(JStr ''abc123'', \<lparr>self_id = JStr ''abc123'', self_api_url = ''http://127.0.0.1:8775'',
                                      self_target_url = ''http://target/?id=1''\<rparr>),
                       (JStr ''zzz999'', \<lparr>self_id = JStr ''zzz999'', self_api_url = ''http://127.0.0.1:8775'',
                                      self_target_url = ''http://target/?id=1''\<rparr>)])],
           sent = [], logged = []\<rparr>)))
        ''http://127.0.0.1:8775'' (JStr ''zzz999'')
     = Some \<lparr>self_id = JStr ''zzz999'', self_api_url = ''http://127.0.0.1:8775'',
              self_target_url = ''http://target/?id=1''\<rparr>"
  by (simp add: task_list_def static_request_mock Let_def dict_get_def dict_getitem_def
      dict_setitem_def keys_def dict_pop_def dict_pop_key_def key_in_def key_eq_def
      registry_at_def SqlmapTask_init_def)

text \<open>
  Claim C7, as the code has it. For every server endpoint for which the registry has
  no entry, once the \<open>/admin/list\<close> request has returned an Envelope whose \<open>tasks\<close> field
  is a mapping, \<open>task_list\<close> returns an empty mapping; nothing is pruned, the registry
  is the one before the call, and no error is raised.
\<close>

theorem task_list_no_entry_short_circuit:
  assumes "dict_get (TASKS s) api_url = None"
    and "static_request http load_json (api_url @ ''/admin/list'') GET None s = (Inr r_data, s1)"
    and "dict_get r_data ''tasks'' = Some (JDict kvs)"
  shows "task_list http load_json api_url s = (Inr [], s1) \<and> TASKS s1 = TASKS s"
  using assms static_request_TASKS [of http load_json "api_url @ ''/admin/list''" GET None s]
  by (simp add: task_list_def dict_getitem_def dict_get_def keys_def Let_def)

text \<open>
  The run of the amended C7: the registry knows one task of another server, and
  \<open>/admin/list\<close> answers \<open>{"success": true, "tasks": {"abc123": "..."}}\<close>.
\<close>

theorem task_list_no_entry_short_circuit_witness:
  "fst (task_list (mock_http ''body'')
          (mock_load_json (JDict [(''success'', JBool True),
                                  (''tasks'', JDict [(''abc123'', JStr ''...'')])]))
          ''http://127.0.0.1:8775''
          \<lparr>TASKS = [(''http://10.0.0.2:8775'',
                      [(JStr ''f00'', \<lparr>self_id = JStr ''f00'', self_api_url = ''http://10.0.0.2:8775'',
                                   self_target_url = ''http://target/?id=1''\<rparr>)])],
           sent = [], logged = []\<rparr>)
     = Inr []"
proof -
  let ?s = "\<lparr>TASKS = [(''http://10.0.0.2:8775'',
                      [(JStr ''f00'', \<lparr>self_id = JStr ''f00'', self_api_url = ''http://10.0.0.2:8775'',
                                   self_target_url = ''http://target/?id=1''\<rparr>)])],
             sent = [], logged = []\<rparr>"
  let ?d = "[(''success'', JBool True), (''tasks'', JDict [(''abc123'', JStr ''...'')])]"
  have h1: "dict_get (TASKS ?s) ''http://127.0.0.1:8775'' = None"
    by (simp add: dict_get_def)
  have h2: "static_request (mock_http ''body'') (mock_load_json (JDict ?d))
              (''http://127.0.0.1:8775'' @ ''/admin/list'') GET None ?s
            = (Inr ?d,
               ?s\<lparr>sent := [\<lparr>req_url = ''http://127.0.0.1:8775/admin/list'', req_type = GET,
                              req_json = None\<rparr>],
                   logged := [LogInfo ''Response data of http://127.0.0.1:8775/admin/list: ''
                                (JDict ?d)]\<rparr>)"
    by (simp add: static_request_mock Let_def)
  have h3: "dict_get ?d ''tasks'' = Some (JDict [(''abc123'', JStr ''...'')])"
    by (simp add: dict_get_def)
  show ?thesis
    using task_list_no_entry_short_circuit [OF h1 h2 h3] by simp
qed

text \<open>
  C7 as stated fails: with an empty registry and a server that answers
  \<open>{"success": true}\<close>, without a \<open>tasks\<close> field, \<open>task_list\<close> raises \<open>KeyError\<close> and
  returns no mapping.
\<close>

theorem task_list_no_entry_counterexample:
  "dict_get (TASKS \<lparr>TASKS = [], sent = [], logged = []\<rparr>) ''http://127.0.0.1:8775'' = None
   \<and> fst (task_list (mock_http ''body'') (mock_load_json (JDict [(''success'', JBool True)]))
          ''http://127.0.0.1:8775'' \<lparr>TASKS = [], sent = [], logged = []\<rparr>)
     = Inl (KeyError (JStr ''tasks''))
   \<and> fst (task_list (mock_http ''body'') (mock_load_json (JDict [(''success'', JBool True)]))
          ''http://127.0.0.1:8775'' \<lparr>TASKS = [], sent = [], logged = []\<rparr>)
     \<noteq> Inr []"
  by (simp add: task_list_def static_request_mock Let_def dict_get_def dict_getitem_def)

text \<open>
  Claim C10. \<open>task_list\<close> always issues the \<open>GET\<close> request to \<open>/admin/list\<close>, and it
  reads the \<open>tasks\<close> field of the Envelope before it looks at the registry: for a server
  endpoint without a registry entry, an Envelope without a \<open>tasks\<close> field makes
  \<open>task_list\<close> fail with the missing-key lookup error for \<open>tasks\<close>, not return the
  empty mapping.
\<close>

theorem task_list_requests_before_registry_check:
  "sent (snd (task_list http load_json api_url s)) =
     sent s @ [\<lparr>req_url = api_url @ ''/admin/list'', req_type = GET, req_json = None\<rparr>]
   \<and> (dict_get (TASKS s) api_url = None
        \<and> static_request http load_json (api_url @ ''/admin/list'') GET None s = (Inr r_data, s1)
        \<and> dict_get r_data ''tasks'' = None
      \<longrightarrow> task_list http load_json api_url s = (Inl (KeyError (JStr ''tasks'')), s1))"
  by (simp add: task_list_sent) (simp add: task_list_def dict_getitem_def dict_get_def Let_def)

text \<open>
  The run of C10: the registry knows one task of another server, and \<open>/admin/list\<close>
  answers the empty mapping \<open>{}\<close>.
\<close>

theorem task_list_requests_before_registry_check_witness:
  "sent (snd (task_list (mock_http ''body'') (mock_load_json (JDict []))
                ''http://127.0.0.1:8775''
                \<lparr>TASKS = [(''http://10.0.0.2:8775'',
                            [(JStr ''f00'', \<lparr>self_id = JStr ''f00'', self_api_url = ''http://10.0.0.2:8775'',
                                         self_target_url = ''http://target/?id=1''\<rparr>)])],
                 sent = [], logged = []\<rparr>))
     = [\<lparr>req_url = ''http://127.0.0.1:8775/admin/list'', req_type = GET, req_json = None\<rparr>]
   \<and> fst (task_list (mock_http ''body'') (mock_load_json (JDict []))
            ''http://127.0.0.1:8775''
            \<lparr>TASKS = [(''http://10.0.0.2:8775'',
                        [(JStr ''f00'', \<lparr>self_id = JStr ''f00'', self_api_url = ''http://10.0.0.2:8775'',
                                     self_target_url = ''http://target/?id=1''\<rparr>)])],
             sent = [], logged = []\<rparr>)
     = Inl (KeyError (JStr ''tasks''))"
proof -
  let ?s = "\<lparr>TASKS = [(''http://10.0.0.2:8775'',
                      [(JStr ''f00'', \<lparr>self_id = JStr ''f00'', self_api_url = ''http://10.0.0.2:8775'',
                                   self_target_url = ''http://target/?id=1''\<rparr>)])],
             sent = [], logged = []\<rparr>"
  have h1: "dict_get (TASKS ?s) ''http://127.0.0.1:8775'' = None"
    by (simp add: dict_get_def)
  have h2: "static_request (mock_http ''body'') (mock_load_json (JDict []))
              (''http://127.0.0.1:8775'' @ ''/admin/list'') GET None ?s
            = (Inr [],
               ?s\<lparr>sent := [\<lparr>req_url = ''http://127.0.0.1:8775/admin/list'', req_type = GET,
                              req_json = None\<rparr>],
                   logged := [LogInfo ''Response data of http://127.0.0.1:8775/admin/list: ''
                                (JDict [])]\<rparr>)"
    by (simp add: static_request_mock Let_def)
  have h3: "dict_get ([] :: json dict) ''tasks'' = None"
    by (simp add: dict_get_def)
  show ?thesis
    using h1 h2 h3
      task_list_requests_before_registry_check
        [where http = "mock_http ''body''" and load_json = "mock_load_json (JDict [])"
           and api_url = "''http://127.0.0.1:8775''" and s = ?s and r_data = "[]"
           and ?s1.0 = "?s\<lparr>sent := [\<lparr>req_url = ''http://127.0.0.1:8775/admin/list'',
                                        req_type = GET, req_json = None\<rparr>],
                                logged := [LogInfo ''Response data of http://127.0.0.1:8775/admin/list: ''
                                             (JDict [])]\<rparr>"]
    by simp
qed

end
